theory Spec2Isabelle
  imports Main "HOL-Library.Word"
begin

section \<open>The buffer entry point of the EDID decoder (src/wasm/parse_edid_buffer.cpp)\<close>

text \<open>
  The file defines one static array, \<^verbatim>\<open>edid_input_buffer\<close>, two accessors and the
  function \<^verbatim>\<open>parse_edid_buffer\<close>. Everything else the function touches (the working
  array \<^verbatim>\<open>edid\<close>, the message logs \<^verbatim>\<open>s_msgs\<close>, the array \<^verbatim>\<open>options\<close>, the object
  \<^verbatim>\<open>state\<close> with its constructor and its method \<^verbatim>\<open>parse_edid\<close>, and the two macros
  \<^verbatim>\<open>EDID_PAGE_SIZE\<close> and \<^verbatim>\<open>EDID_MAX_BLOCKS\<close>) is declared outside the file. The globals
  are modelled as one record that is passed in and returned; the macros, the constructor and
  the method are parameters of the model, collected in the record \<open>env\<close>.
\<close>

subsection \<open>Data\<close>

type_synonym byte = "8 word"
type_synonym u32 = "32 word"

text \<open>
  Modelled from the spec: the enumeration that indexes \<^verbatim>\<open>options\<close> is declared outside
  the file. The five enumerators the function assigns are the spec's structural-check,
  preferred-timings-check, native-resolution-check, checksum-skip and UTF-8 flags; every
  other entry of the array is an \<open>OptOther\<close>.
\<close>

datatype opt =
  OptCheck | OptPreferredTimings | OptNativeResolution | OptSkipSHA | OptUTF8 | OptOther nat

text \<open>
  The object \<^verbatim>\<open>state\<close>: the function writes its members \<^verbatim>\<open>edid_size\<close> and
  \<^verbatim>\<open>num_blocks\<close> (both \<^verbatim>\<open>unsigned\<close>); the remaining members are kept abstract in
  \<open>rest\<close>.
\<close>

record 's edid_state =
  edid_size :: u32
  num_blocks :: u32
  rest :: 's

text \<open>
  The globals. \<open>s_msgs ! i\<close> is the pair \<^verbatim>\<open>(s_msgs[i][0], s_msgs[i][1])\<close>; \<open>stderr\<close> is
  the text written to the error stream so far.
\<close>

record 's globals =
  edid_input_buffer :: "byte list"
  edid :: "byte list"
  s_msgs :: "(string \<times> string) list"
  options :: "opt \<Rightarrow> int"
  state :: "'s edid_state"
  stderr :: string

text \<open>
  What the file takes from its surroundings: the two macros (unsigned constants), the value
  built by the constructor \<^verbatim>\<open>edid_state()\<close>, and the method \<^verbatim>\<open>state.parse_edid()\<close>, which
  reads and writes the globals and returns an \<^verbatim>\<open>int\<close>.
\<close>

record 's env =
  EDID_PAGE_SIZE :: u32
  EDID_MAX_BLOCKS :: u32
  new_edid_state :: "'s edid_state"
  parse_edid :: "'s globals \<Rightarrow> int \<times> 's globals"

text \<open>
  The result of one call: the value returned, the globals as they were at each call of
  \<^verbatim>\<open>state.parse_edid()\<close> (none or one), and the globals when the function returns.
\<close>

record 's outcome =
  ret :: int
  engine_inputs :: "'s globals list"
  final :: "'s globals"

subsection \<open>The accessors\<close>

text \<open>\<^verbatim>\<open>sizeof(edid_input_buffer)\<close>: the product of the two unsigned macros.\<close>

definition sizeof_edid_input_buffer :: "'s env \<Rightarrow> u32" where
  "sizeof_edid_input_buffer e = EDID_PAGE_SIZE e * EDID_MAX_BLOCKS e"

definition get_edid_buffer :: "'s globals \<Rightarrow> byte list" where
  "get_edid_buffer g = edid_input_buffer g"

definition get_edid_buffer_size :: "'s env \<Rightarrow> u32" where
  "get_edid_buffer_size e = sizeof_edid_input_buffer e"

subsection \<open>Library functions the entry point calls\<close>

text \<open>\<^verbatim>\<open>%u\<close> of \<^verbatim>\<open>fprintf\<close>: the decimal digits of an unsigned value.\<close>

fun dec_digits :: "nat \<Rightarrow> string" where
  "dec_digits n =
     (if n < 10 then [char_of (48 + n)]
      else dec_digits (n div 10) @ [char_of (48 + n mod 10)])"

declare dec_digits.simps [simp del]

definition invalid_size_msg :: "u32 \<Rightarrow> string" where
  "invalid_size_msg len =
     ''Invalid EDID size: '' @ dec_digits (unat len) @ '' bytes'' @ [CHR 0x0A]"

definition no_header_msg :: string where
  "no_header_msg = ''No EDID header found.'' @ [CHR 0x0A]"

text \<open>
  \<^verbatim>\<open>memcmp(a, b, n)\<close>: the sign of the first difference among the first \<open>n\<close> bytes, bytes
  compared as unsigned. Both arrays hold at least \<open>n\<close> bytes wherever the function calls
  it, provided the staging array has eight; the last equation only makes the model total
  (a list that ends early counts as a difference).
\<close>

fun memcmp :: "byte list \<Rightarrow> byte list \<Rightarrow> nat \<Rightarrow> int" where
  "memcmp a b 0 = 0"
| "memcmp (x # xs) (y # ys) (Suc n) =
     (if x = y then memcmp xs ys n else if x < y then - 1 else 1)"
| "memcmp a b (Suc n) = 1"

text \<open>The string literal \<^verbatim>\<open>"\x00\xFF\xFF\xFF\xFF\xFF\xFF\x00"\<close>.\<close>

definition edid_header :: "byte list" where
  "edid_header = [0x00, 0xFF, 0xFF, 0xFF, 0xFF, 0xFF, 0xFF, 0x00]"

text \<open>
  \<^verbatim>\<open>memcpy(dst, src, n)\<close>: the first \<open>n\<close> bytes of \<open>dst\<close> are replaced by those of
  \<open>src\<close>. Both arrays hold at least \<open>n\<close> bytes where the function calls it.
\<close>

definition memcpy :: "byte list \<Rightarrow> byte list \<Rightarrow> nat \<Rightarrow> byte list" where
  "memcpy dst src n = take n src @ drop n dst"

subsection \<open>\<^verbatim>\<open>parse_edid_buffer\<close>\<close>

text \<open>
  The loop \<^verbatim>\<open>for (unsigned i = 0; i < EDID_MAX_BLOCKS + 1; i++)\<close>, from index \<open>i\<close> with
  the bound \<open>n\<close>. The counter stays below the bound, an unsigned value, so it never wraps
  and is a \<open>nat\<close> here. The body clears the two strings of row \<open>i\<close>, one after the
  other.
\<close>

function clear_msgs :: "nat \<Rightarrow> nat \<Rightarrow> (string \<times> string) list \<Rightarrow> (string \<times> string) list" where
  "clear_msgs i n m =
     (if i < n then
        (let m1 = m[i := ([], snd (m ! i))];
             m2 = m1[i := (fst (m1 ! i), [])]
         in clear_msgs (i + 1) n m2)
      else m)"
  by pat_completeness auto
termination
  by (relation "measure (\<lambda>(i, n, m). n - i)") auto

declare clear_msgs.simps [simp del]

text \<open>Lines 24 to 33: the loop, the five assignments to \<^verbatim>\<open>options\<close>, and the fresh state.\<close>

definition reset_decoder :: "'s env \<Rightarrow> 's globals \<Rightarrow> 's globals" where
  "reset_decoder e g =
     g\<lparr>s_msgs := clear_msgs 0 (unat (EDID_MAX_BLOCKS e + 1)) (s_msgs g),
       options := (options g)(OptCheck := 1, OptPreferredTimings := 1,
                              OptNativeResolution := 1, OptSkipSHA := 0, OptUTF8 := 1),
       state := new_edid_state e\<rparr>"

text \<open>Lines 46 to 48: the copy and the two assignments to members of \<^verbatim>\<open>state\<close>.\<close>

definition load_edid :: "'s env \<Rightarrow> 's globals \<Rightarrow> u32 \<Rightarrow> 's globals" where
  "load_edid e g len =
     (let g1 = g\<lparr>edid := memcpy (edid g) (edid_input_buffer g) (unat len)\<rparr>;
          g2 = g1\<lparr>state := (state g1)\<lparr>edid_size := len\<rparr>\<rparr>;
          g3 = g2\<lparr>state := (state g2)\<lparr>num_blocks := len div EDID_PAGE_SIZE e\<rparr>\<rparr>
      in g3)"

definition parse_edid_buffer :: "'s env \<Rightarrow> 's globals \<Rightarrow> u32 \<Rightarrow> 's outcome" where
  "parse_edid_buffer e g0 len =
     (let g = reset_decoder e g0 in
      if len < EDID_PAGE_SIZE e \<or> len > sizeof_edid_input_buffer e then
        \<lparr>ret = - 1, engine_inputs = [],
         final = g\<lparr>stderr := stderr g @ invalid_size_msg len\<rparr>\<rparr>
      else if memcmp (edid_input_buffer g) edid_header 8 \<noteq> 0 then
        \<lparr>ret = - 1, engine_inputs = [],
         final = g\<lparr>stderr := stderr g @ no_header_msg\<rparr>\<rparr>
      else
        (let g3 = load_edid e g len;
             (r, g4) = parse_edid e g3
         in \<lparr>ret = r, engine_inputs = [g3], final = g4\<rparr>))"

subsection \<open>Vocabulary of the properties\<close>

text \<open>The declared length lies in the inclusive range from one page to the capacity.\<close>

definition in_range :: "'s env \<Rightarrow> u32 \<Rightarrow> bool" where
  "in_range e len \<longleftrightarrow> EDID_PAGE_SIZE e \<le> len \<and> len \<le> sizeof_edid_input_buffer e"

text \<open>The first eight bytes of the staging array are the signature.\<close>

definition header_ok :: "'s globals \<Rightarrow> bool" where
  "header_ok g \<longleftrightarrow> take 8 (edid_input_buffer g) = edid_header"

text \<open>
  Relative to the globals \<open>g0\<close> at the start of the call, the log array of \<open>g\<close> has the
  same rows and every row with an index from 0 to the maximum block count holds two empty
  strings.
\<close>

definition logs_empty :: "'s env \<Rightarrow> 's globals \<Rightarrow> 's globals \<Rightarrow> bool" where
  "logs_empty e g0 g \<longleftrightarrow>
     length (s_msgs g) = length (s_msgs g0)
     \<and> (\<forall>i \<in> {0 .. unat (EDID_MAX_BLOCKS e)}.
           i < length (s_msgs g0) \<longrightarrow> s_msgs g ! i = ([], []))"

text \<open>The five option entries hold the values the function assigns.\<close>

definition default_options :: "'s globals \<Rightarrow> bool" where
  "default_options g \<longleftrightarrow>
     options g OptCheck = 1 \<and> options g OptPreferredTimings = 1
     \<and> options g OptNativeResolution = 1 \<and> options g OptSkipSHA = 0 \<and> options g OptUTF8 = 1"

subsection \<open>A concrete configuration\<close>

text \<open>
  One configuration on which the statements below are exercised: pages of 128 bytes, eight
  blocks (a capacity of 1024 bytes), an engine that returns the block count it finds and
  counts its calls in the abstract part of the state. The staging array of \<open>good_globals\<close>
  starts with the signature; that of \<open>bad_globals\<close> has a wrong first byte. The working
  array, the logs, the options and the state hold leftovers of an earlier call.
\<close>

definition scenario_env :: "nat env" where
  "scenario_env =
     \<lparr>EDID_PAGE_SIZE = 128, EDID_MAX_BLOCKS = 8,
      new_edid_state = \<lparr>edid_size = 0, num_blocks = 0, rest = 0\<rparr>,
      parse_edid = (\<lambda>g. (int (unat (num_blocks (state g))),
                          g\<lparr>state := (state g)\<lparr>rest := Suc (rest (state g))\<rparr>\<rparr>))\<rparr>"

definition good_globals :: "nat globals" where
  "good_globals =
     \<lparr>edid_input_buffer = edid_header @ replicate 1016 0,
      edid = replicate 1024 0xAA,
      s_msgs = replicate 9 (''warn'', ''fail''),
      options = (\<lambda>k. 7),
      state = \<lparr>edid_size = 256, num_blocks = 2, rest = 5\<rparr>,
      stderr = []\<rparr>"

definition bad_globals :: "nat globals" where
  "bad_globals = good_globals\<lparr>edid_input_buffer := 0x01 # tl (edid_input_buffer good_globals)\<rparr>"

text \<open>The same staging array as \<open>good_globals\<close> up to index 7, different bytes after.\<close>

definition other_globals :: "nat globals" where
  "other_globals = good_globals\<lparr>edid_input_buffer := edid_header @ replicate 1016 0x55\<rparr>"

section \<open>Auxiliary facts\<close>

subsection \<open>The library functions\<close>

lemma memcmp_zero_iff:
  "memcmp a b n = 0 \<longleftrightarrow> n \<le> length a \<and> n \<le> length b \<and> take n a = take n b"
  by (induction a b n rule: memcmp.induct) auto

lemma memcmp_header: "memcmp a edid_header 8 = 0 \<longleftrightarrow> take 8 a = edid_header"
proof
  assume "memcmp a edid_header 8 = 0"
  then show "take 8 a = edid_header"
    by (simp add: memcmp_zero_iff edid_header_def)
next
  assume h: "take 8 a = edid_header"
  then have "length (take 8 a) = 8" by (simp add: edid_header_def)
  then have "8 \<le> length a" by simp
  with h show "memcmp a edid_header 8 = 0"
    by (simp add: memcmp_zero_iff edid_header_def)
qed

lemma msgs_differ: "invalid_size_msg len \<noteq> no_header_msg"
  by (simp add: invalid_size_msg_def no_header_msg_def)

lemma take_memcpy: "n \<le> length src \<Longrightarrow> take n (memcpy dst src n) = take n src"
  by (simp add: memcpy_def)

lemma drop_memcpy: "n \<le> length src \<Longrightarrow> drop n (memcpy dst src n) = drop n dst"
  by (simp add: memcpy_def)

lemma length_memcpy:
  "n \<le> length src \<Longrightarrow> n \<le> length dst \<Longrightarrow> length (memcpy dst src n) = length dst"
  by (simp add: memcpy_def)

subsection \<open>The clearing loop\<close>

lemma clear_msgs_length: "length (clear_msgs i n m) = length m"
proof (induction i n m rule: clear_msgs.induct)
  case (1 i n m)
  show ?case
  proof (cases "i < n")
    case True
    with "1" show ?thesis by (simp add: clear_msgs.simps [of i n m] Let_def)
  next
    case False
    then show ?thesis by (simp add: clear_msgs.simps [of i n m])
  qed
qed

lemma clear_msgs_nth:
  "j < length m \<Longrightarrow>
   clear_msgs i n m ! j = (if i \<le> j \<and> j < n then ([], []) else m ! j)"
proof (induction i n m rule: clear_msgs.induct)
  case (1 i n m)
  show ?case
  proof (cases "i < n")
    case True
    with "1" show ?thesis
      by (simp add: clear_msgs.simps [of i n m] Let_def nth_list_update)
  next
    case False
    then show ?thesis by (auto simp add: clear_msgs.simps [of i n m])
  qed
qed

subsection \<open>Fields after the reset and after the copy\<close>

lemma reset_decoder_fields:
  "edid_input_buffer (reset_decoder e g) = edid_input_buffer g"
  "edid (reset_decoder e g) = edid g"
  "stderr (reset_decoder e g) = stderr g"
  "state (reset_decoder e g) = new_edid_state e"
  "s_msgs (reset_decoder e g) = clear_msgs 0 (unat (EDID_MAX_BLOCKS e + 1)) (s_msgs g)"
  "options (reset_decoder e g) =
     (options g)(OptCheck := 1, OptPreferredTimings := 1, OptNativeResolution := 1,
                 OptSkipSHA := 0, OptUTF8 := 1)"
  by (simp_all add: reset_decoder_def)

lemma load_edid_fields:
  "edid_input_buffer (load_edid e g len) = edid_input_buffer g"
  "edid (load_edid e g len) = memcpy (edid g) (edid_input_buffer g) (unat len)"
  "stderr (load_edid e g len) = stderr g"
  "s_msgs (load_edid e g len) = s_msgs g"
  "options (load_edid e g len) = options g"
  "state (load_edid e g len) =
     (state g)\<lparr>edid_size := len, num_blocks := len div EDID_PAGE_SIZE e\<rparr>"
  by (simp_all add: load_edid_def Let_def)

lemma header_ok_reset: "header_ok (reset_decoder e g) = header_ok g"
  by (simp add: header_ok_def reset_decoder_fields)

subsection \<open>What the reset establishes\<close>

lemma unat_bound_succ:
  "EDID_MAX_BLOCKS e + 1 \<noteq> 0 \<Longrightarrow> unat (EDID_MAX_BLOCKS e + 1) = Suc (unat (EDID_MAX_BLOCKS e))"
  using unatSuc [of "EDID_MAX_BLOCKS e"] by (simp add: add.commute)

lemma reset_logs_empty:
  assumes "EDID_MAX_BLOCKS e + 1 \<noteq> 0"
  shows "logs_empty e g (reset_decoder e g)"
  using assms
  by (simp add: logs_empty_def reset_decoder_fields clear_msgs_length clear_msgs_nth
      unat_bound_succ)

lemma reset_default_options: "default_options (reset_decoder e g)"
  by (simp add: default_options_def reset_decoder_fields)

subsection \<open>The three ways through the function\<close>

lemma size_check_iff:
  "(len < EDID_PAGE_SIZE e \<or> len > sizeof_edid_input_buffer e) \<longleftrightarrow> \<not> in_range e len"
  by (auto simp: in_range_def)

lemma parse_size_rejected:
  assumes "\<not> in_range e len"
  shows "parse_edid_buffer e g len =
           \<lparr>ret = - 1, engine_inputs = [],
            final = (reset_decoder e g)\<lparr>stderr := stderr g @ invalid_size_msg len\<rparr>\<rparr>"
  using assms
  by (simp add: parse_edid_buffer_def Let_def size_check_iff reset_decoder_fields)

lemma parse_header_rejected:
  assumes "in_range e len" and "\<not> header_ok g"
  shows "parse_edid_buffer e g len =
           \<lparr>ret = - 1, engine_inputs = [],
            final = (reset_decoder e g)\<lparr>stderr := stderr g @ no_header_msg\<rparr>\<rparr>"
  using assms
  by (simp add: parse_edid_buffer_def Let_def size_check_iff reset_decoder_fields
      memcmp_header header_ok_def)

lemma parse_accepted:
  assumes "in_range e len" and "header_ok g"
  shows "parse_edid_buffer e g len =
           \<lparr>ret = fst (parse_edid e (load_edid e (reset_decoder e g) len)),
            engine_inputs = [load_edid e (reset_decoder e g) len],
            final = snd (parse_edid e (load_edid e (reset_decoder e g) len))\<rparr>"
  using assms
  by (simp add: parse_edid_buffer_def Let_def size_check_iff reset_decoder_fields
      memcmp_header header_ok_def case_prod_beta)

lemma engine_inputs_empty_iff:
  "engine_inputs (parse_edid_buffer e g len) = [] \<longleftrightarrow> \<not> in_range e len \<or> \<not> header_ok g"
proof (cases "in_range e len")
  case False
  then show ?thesis by (simp add: parse_size_rejected)
next
  case True
  then show ?thesis
    by (cases "header_ok g") (simp_all add: parse_header_rejected parse_accepted)
qed

subsection \<open>Sizes and block counts\<close>

lemma blocks_bounds:
  assumes "0 < EDID_PAGE_SIZE e" and "in_range e len"
  shows "1 \<le> len div EDID_PAGE_SIZE e \<and> len div EDID_PAGE_SIZE e \<le> EDID_MAX_BLOCKS e"
proof -
  let ?p = "unat (EDID_PAGE_SIZE e)"
  have p: "0 < ?p" using assms(1) by (simp add: word_less_nat_alt)
  have lo: "?p \<le> unat len" using assms(2) by (simp add: in_range_def word_le_nat_alt)
  have "unat (sizeof_edid_input_buffer e) \<le> ?p * unat (EDID_MAX_BLOCKS e)"
    by (simp add: sizeof_edid_input_buffer_def unat_word_ariths)
  then have hi: "unat len \<le> ?p * unat (EDID_MAX_BLOCKS e)"
    using assms(2) by (simp add: in_range_def word_le_nat_alt)
  have d: "unat (len div EDID_PAGE_SIZE e) = unat len div ?p" by (rule unat_div)
  have one: "1 \<le> unat len div ?p" using p lo by (simp add: Suc_le_eq div_greater_zero_iff)
  have "unat len div ?p \<le> (?p * unat (EDID_MAX_BLOCKS e)) div ?p"
    using hi by (rule div_le_mono)
  then have most: "unat len div ?p \<le> unat (EDID_MAX_BLOCKS e)" using p by simp
  from one most show ?thesis by (simp add: word_le_nat_alt d)
qed

lemma in_range_cong:
  "EDID_PAGE_SIZE e1 = EDID_PAGE_SIZE e2 \<Longrightarrow> EDID_MAX_BLOCKS e1 = EDID_MAX_BLOCKS e2 \<Longrightarrow>
   in_range e1 len = in_range e2 len"
  by (simp add: in_range_def sizeof_edid_input_buffer_def)

subsection \<open>The concrete configuration\<close>

lemma scenario_in_range:
  "in_range scenario_env 128" "in_range scenario_env 385" "in_range scenario_env 1024"
  "\<not> in_range scenario_env 64" "\<not> in_range scenario_env 2048"
  by (simp_all add: in_range_def scenario_env_def sizeof_edid_input_buffer_def)

lemma scenario_headers: "header_ok good_globals" "\<not> header_ok bad_globals"
  by (simp_all add: header_ok_def good_globals_def bad_globals_def edid_header_def)

lemma scenario_accepted:
  "engine_inputs (parse_edid_buffer scenario_env good_globals len)
     = [load_edid scenario_env (reset_decoder scenario_env good_globals) len]"
  if "in_range scenario_env len"
  using that by (simp add: parse_accepted scenario_headers)

lemma scenario_lengths:
  "length (edid_input_buffer good_globals) = unat (sizeof_edid_input_buffer scenario_env)"
  "unat (sizeof_edid_input_buffer scenario_env) \<le> length (edid good_globals)"
  by (simp_all add: good_globals_def scenario_env_def sizeof_edid_input_buffer_def edid_header_def)

lemma scenario_logs_cleared:
  "s_msgs (reset_decoder scenario_env good_globals) = replicate 9 ([], [])"
proof -
  have "unat (EDID_MAX_BLOCKS scenario_env + 1) = 9" by (simp add: scenario_env_def)
  moreover have "clear_msgs 0 9 (replicate 9 (''warn'', ''fail'')) = replicate 9 ([], [])"
    by code_simp
  ultimately show ?thesis by (simp add: reset_decoder_fields good_globals_def)
qed

lemma invalid_size_msg_64: "invalid_size_msg 64 = ''Invalid EDID size: 64 bytes'' @ [CHR 0x0A]"
  by (simp add: invalid_size_msg_def dec_digits.simps [of 64] dec_digits.simps [of 6] char_of_def
      bit_0)

section \<open>The claims\<close>

subsection \<open>C1: the size check\<close>

text \<open>
  Claim C1 says that the call returns \<open>-1\<close> without invoking the engine if and only if the
  declared length is outside the inclusive range from the page size to the capacity. As
  stated this fails: with a length of one page and a wrong first header byte the call
  returns \<open>-1\<close> without invoking the engine although the length is in range.
\<close>

theorem size_iff_counterexample:
  "\<not> ((ret (parse_edid_buffer scenario_env bad_globals 128) = - 1
        \<and> engine_inputs (parse_edid_buffer scenario_env bad_globals 128) = [])
       \<longleftrightarrow> (128 < EDID_PAGE_SIZE scenario_env
            \<or> 128 > sizeof_edid_input_buffer scenario_env))"
proof -
  have "parse_edid_buffer scenario_env bad_globals 128 =
          \<lparr>ret = - 1, engine_inputs = [],
           final = (reset_decoder scenario_env bad_globals)
                     \<lparr>stderr := stderr bad_globals @ no_header_msg\<rparr>\<rparr>"
    by (rule parse_header_rejected) (rule scenario_in_range scenario_headers)+
  moreover have "\<not> (128 < EDID_PAGE_SIZE scenario_env
                   \<or> 128 > sizeof_edid_input_buffer scenario_env)"
    using scenario_in_range(1) by (simp only: size_check_iff not_not)
  ultimately show ?thesis by simp
qed

text \<open>
  Claim C1, amended. The call returns \<open>-1\<close> without invoking the engine if and only if
  the declared length is outside the range or the first eight staging bytes are not the
  signature; it does so with the invalid-size diagnostic appended to the error stream if and
  only if the length is outside the range. For every length outside the range the call
  fails before the copy: the state is the freshly constructed one (so its recorded size is
  the default) and the working array is untouched. A length equal to the capacity (and not
  below the page size) passes the size check: the engine is then invoked exactly when the
  header is right.
\<close>

theorem size_check_outcome:
  "((ret (parse_edid_buffer e g len) = - 1 \<and> engine_inputs (parse_edid_buffer e g len) = [])
      \<longleftrightarrow> (\<not> in_range e len \<or> \<not> header_ok g))
   \<and> ((ret (parse_edid_buffer e g len) = - 1 \<and> engine_inputs (parse_edid_buffer e g len) = []
       \<and> stderr (final (parse_edid_buffer e g len)) = stderr g @ invalid_size_msg len)
      \<longleftrightarrow> \<not> in_range e len)
   \<and> (\<not> in_range e len \<longrightarrow>
        state (final (parse_edid_buffer e g len)) = new_edid_state e
        \<and> edid_size (state (final (parse_edid_buffer e g len))) = edid_size (new_edid_state e)
        \<and> edid (final (parse_edid_buffer e g len)) = edid g)
   \<and> (len = sizeof_edid_input_buffer e \<longrightarrow> EDID_PAGE_SIZE e \<le> len \<longrightarrow>
        (engine_inputs (parse_edid_buffer e g len) \<noteq> [] \<longleftrightarrow> header_ok g))"
proof -
  let ?o = "parse_edid_buffer e g len"
  have rejected: "(ret ?o = - 1 \<and> engine_inputs ?o = []) \<longleftrightarrow> (\<not> in_range e len \<or> \<not> header_ok g)"
  proof (cases "in_range e len")
    case False
    then show ?thesis by (simp add: parse_size_rejected)
  next
    case True
    then show ?thesis
      by (cases "header_ok g") (simp_all add: parse_header_rejected parse_accepted)
  qed
  have size_failure:
    "(ret ?o = - 1 \<and> engine_inputs ?o = [] \<and> stderr (final ?o) = stderr g @ invalid_size_msg len)
       \<longleftrightarrow> \<not> in_range e len"
  proof (cases "in_range e len")
    case False
    then show ?thesis by (simp add: parse_size_rejected)
  next
    case True
    then show ?thesis
      by (cases "header_ok g")
        (simp_all add: parse_header_rejected parse_accepted msgs_differ [symmetric])
  qed
  have before_copy:
    "\<not> in_range e len \<longrightarrow>
       state (final ?o) = new_edid_state e
       \<and> edid_size (state (final ?o)) = edid_size (new_edid_state e)
       \<and> edid (final ?o) = edid g"
    by (simp add: parse_size_rejected reset_decoder_fields)
  have at_capacity:
    "len = sizeof_edid_input_buffer e \<longrightarrow> EDID_PAGE_SIZE e \<le> len \<longrightarrow>
       (engine_inputs ?o \<noteq> [] \<longleftrightarrow> header_ok g)"
  proof (intro impI)
    assume "len = sizeof_edid_input_buffer e" and "EDID_PAGE_SIZE e \<le> len"
    then have "in_range e len" by (simp add: in_range_def)
    then show "engine_inputs ?o \<noteq> [] \<longleftrightarrow> header_ok g"
      by (simp add: engine_inputs_empty_iff)
  qed
  from rejected size_failure before_copy at_capacity show ?thesis
    by (intro conjI)
qed

theorem size_check_outcome_witness:
  "\<not> in_range scenario_env 64
   \<and> ret (parse_edid_buffer scenario_env good_globals 64) = - 1
   \<and> engine_inputs (parse_edid_buffer scenario_env good_globals 64) = []
   \<and> stderr (final (parse_edid_buffer scenario_env good_globals 64))
       = stderr good_globals @ invalid_size_msg 64
   \<and> state (final (parse_edid_buffer scenario_env good_globals 64)) = new_edid_state scenario_env
   \<and> edid (final (parse_edid_buffer scenario_env good_globals 64)) = edid good_globals
   \<and> (1024 :: u32) = sizeof_edid_input_buffer scenario_env
   \<and> EDID_PAGE_SIZE scenario_env \<le> 1024
   \<and> header_ok good_globals
   \<and> engine_inputs (parse_edid_buffer scenario_env good_globals 1024) \<noteq> []"
proof -
  have a: "\<not> in_range scenario_env 64" by (rule scenario_in_range)
  have b: "(1024 :: u32) = sizeof_edid_input_buffer scenario_env"
    by (simp add: scenario_env_def sizeof_edid_input_buffer_def)
  have c: "EDID_PAGE_SIZE scenario_env \<le> 1024" by (simp add: scenario_env_def)
  have d: "header_ok good_globals" by (rule scenario_headers)
  show ?thesis
    using a b c d size_check_outcome [of scenario_env good_globals 64]
      size_check_outcome [of scenario_env good_globals 1024]
    by blast
qed

subsection \<open>C2: the header check\<close>

text \<open>
  Claim C2. Whenever the first eight bytes of the staging array differ from the signature
  \<open>00 FF FF FF FF FF FF 00\<close>, the call returns the failure status \<open>-1\<close> and never invokes
  the engine, whatever the declared length. (The diagnostic is the no-header text when the
  length is in range and the invalid-size text otherwise.)
\<close>

theorem header_check_outcome:
  assumes "take 8 (edid_input_buffer g) \<noteq> edid_header"
  shows "ret (parse_edid_buffer e g len) = - 1
         \<and> engine_inputs (parse_edid_buffer e g len) = []
         \<and> stderr (final (parse_edid_buffer e g len))
             = stderr g @ (if in_range e len then no_header_msg else invalid_size_msg len)"
proof -
  from assms have nh: "\<not> header_ok g" by (simp add: header_ok_def)
  show ?thesis
  proof (cases "in_range e len")
    case True
    with nh show ?thesis by (simp add: parse_header_rejected)
  next
    case False
    then show ?thesis by (simp add: parse_size_rejected)
  qed
qed

theorem header_check_outcome_witness:
  "take 8 (edid_input_buffer bad_globals) \<noteq> edid_header
   \<and> ret (parse_edid_buffer scenario_env bad_globals 128) = - 1
   \<and> engine_inputs (parse_edid_buffer scenario_env bad_globals 128) = []
   \<and> ret (parse_edid_buffer scenario_env bad_globals 2048) = - 1
   \<and> engine_inputs (parse_edid_buffer scenario_env bad_globals 2048) = []"
proof -
  have h: "take 8 (edid_input_buffer bad_globals) \<noteq> edid_header"
    using scenario_headers(2) unfolding header_ok_def .
  show ?thesis
    using h header_check_outcome [OF h, of scenario_env 128] header_check_outcome [OF h, of scenario_env 2048]
    by blast
qed

subsection \<open>C3: the reset\<close>

text \<open>
  Claim C3. Every call, whatever its declared length and buffer contents, first clears both
  logs of every block index from 0 to the maximum block count, sets the five option flags to
  their defaults (check, preferred timings, native resolution and UTF-8 on; checksum skip
  off) and replaces the decoder state by a freshly constructed one. A rejected call returns
  with exactly that state; an accepted call hands it to the engine with only the size and
  the block count filled in, so the logs are empty whenever the engine starts. (The loop
  bound \<^verbatim>\<open>EDID_MAX_BLOCKS + 1\<close> is assumed not to wrap to 0.)
\<close>

theorem reset_on_every_call:
  assumes "EDID_MAX_BLOCKS e + 1 \<noteq> 0"
  shows "(engine_inputs (parse_edid_buffer e g len) = [] \<longrightarrow>
            logs_empty e g (final (parse_edid_buffer e g len))
            \<and> default_options (final (parse_edid_buffer e g len))
            \<and> state (final (parse_edid_buffer e g len)) = new_edid_state e)
         \<and> (\<forall>gi \<in> set (engine_inputs (parse_edid_buffer e g len)).
              logs_empty e g gi \<and> default_options gi
              \<and> state gi = (new_edid_state e)\<lparr>edid_size := len,
                                              num_blocks := len div EDID_PAGE_SIZE e\<rparr>)"
proof -
  let ?o = "parse_edid_buffer e g len"
  let ?r = "reset_decoder e g"
  let ?gi = "load_edid e ?r len"
  have logs: "logs_empty e g ?r" using assms by (rule reset_logs_empty)
  have opts: "default_options ?r" by (rule reset_default_options)
  have kept: "logs_empty e g (?r\<lparr>stderr := t\<rparr>) \<and> default_options (?r\<lparr>stderr := t\<rparr>)
              \<and> state (?r\<lparr>stderr := t\<rparr>) = new_edid_state e" for t
    using logs opts by (simp add: logs_empty_def default_options_def reset_decoder_fields)
  have loaded: "logs_empty e g ?gi \<and> default_options ?gi
                \<and> state ?gi = (new_edid_state e)\<lparr>edid_size := len,
                                                    num_blocks := len div EDID_PAGE_SIZE e\<rparr>"
    using logs opts
    by (simp add: logs_empty_def default_options_def load_edid_fields reset_decoder_fields)
  show ?thesis
  proof (cases "in_range e len")
    case False
    then show ?thesis using kept by (simp add: parse_size_rejected)
  next
    case inr: True
    show ?thesis
    proof (cases "header_ok g")
      case False
      with inr show ?thesis using kept by (simp add: parse_header_rejected)
    next
      case True
      with inr show ?thesis using loaded by (simp add: parse_accepted)
    qed
  qed
qed

theorem reset_on_every_call_witness:
  "EDID_MAX_BLOCKS scenario_env + 1 \<noteq> 0
   \<and> engine_inputs (parse_edid_buffer scenario_env bad_globals 128) = []
   \<and> logs_empty scenario_env bad_globals (final (parse_edid_buffer scenario_env bad_globals 128))
   \<and> default_options (final (parse_edid_buffer scenario_env bad_globals 128))
   \<and> state (final (parse_edid_buffer scenario_env bad_globals 128)) = new_edid_state scenario_env
   \<and> engine_inputs (parse_edid_buffer scenario_env good_globals 128)
       = [load_edid scenario_env (reset_decoder scenario_env good_globals) 128]
   \<and> logs_empty scenario_env good_globals
       (load_edid scenario_env (reset_decoder scenario_env good_globals) 128)
   \<and> default_options (load_edid scenario_env (reset_decoder scenario_env good_globals) 128)
   \<and> s_msgs good_globals = replicate 9 (''warn'', ''fail'')
   \<and> s_msgs (load_edid scenario_env (reset_decoder scenario_env good_globals) 128)
       = replicate 9 ([], [])"
proof -
  have m: "EDID_MAX_BLOCKS scenario_env + 1 \<noteq> 0" by (simp add: scenario_env_def)
  have c: "s_msgs good_globals = replicate 9 (''warn'', ''fail'')"
    by (simp add: good_globals_def)
  have c': "s_msgs (load_edid scenario_env (reset_decoder scenario_env good_globals) 128)
       = replicate 9 ([], [])"
    by (simp only: load_edid_fields scenario_logs_cleared)
  have b: "engine_inputs (parse_edid_buffer scenario_env bad_globals 128) = []"
    by (simp add: engine_inputs_empty_iff scenario_headers)
  note a = scenario_accepted [OF scenario_in_range(1)]
  show ?thesis
    using m a b c c' reset_on_every_call [OF m, of bad_globals 128]
      reset_on_every_call [OF m, of good_globals 128]
    by (simp only: list.set ball_simps simp_thms)
qed

subsection \<open>C4: the copy\<close>

text \<open>
  Claim C4. On a call that passes all checks the engine is handed a working array whose
  bytes at the indices below the declared length are those of the staging array; the bytes
  from the declared length on are the ones the working array had before, and its length is
  unchanged. The staging array holds as many bytes as its declared size and the working
  array at least as many.
\<close>

theorem copy_fidelity:
  assumes "in_range e len" and "header_ok g"
    and "length (edid_input_buffer g) = unat (sizeof_edid_input_buffer e)"
    and "unat (sizeof_edid_input_buffer e) \<le> length (edid g)"
  shows "length (engine_inputs (parse_edid_buffer e g len)) = 1
         \<and> (\<forall>gi \<in> set (engine_inputs (parse_edid_buffer e g len)).
              (\<forall>i < unat len. edid gi ! i = edid_input_buffer g ! i)
              \<and> (\<forall>i. unat len \<le> i \<longrightarrow> i < length (edid g) \<longrightarrow> edid gi ! i = edid g ! i)
              \<and> length (edid gi) = length (edid g)
              \<and> edid_input_buffer gi = edid_input_buffer g)"
proof -
  let ?n = "unat len"
  from assms(1) have "?n \<le> unat (sizeof_edid_input_buffer e)"
    by (simp add: in_range_def word_le_nat_alt)
  with assms(3,4) have src: "?n \<le> length (edid_input_buffer g)" and dst: "?n \<le> length (edid g)"
    by simp_all
  let ?c = "memcpy (edid g) (edid_input_buffer g) ?n"
  have low: "\<forall>i < ?n. ?c ! i = edid_input_buffer g ! i"
    using src by (simp add: memcpy_def nth_append)
  have high: "\<forall>i. ?n \<le> i \<longrightarrow> i < length (edid g) \<longrightarrow> ?c ! i = edid g ! i"
    using src dst by (auto simp add: memcpy_def nth_append)
  have len: "length ?c = length (edid g)"
    using src dst by (rule length_memcpy)
  let ?gi = "load_edid e (reset_decoder e g) len"
  have gi: "engine_inputs (parse_edid_buffer e g len) = [?gi]"
    by (simp add: parse_accepted [OF assms(1,2)])
  have c: "edid ?gi = ?c" by (simp add: load_edid_fields reset_decoder_fields)
  have s: "edid_input_buffer ?gi = edid_input_buffer g"
    by (simp add: load_edid_fields reset_decoder_fields)
  from low high len show ?thesis
    unfolding gi by (simp only: c s list.set ball_simps length_Cons list.size simp_thms) simp
qed

theorem copy_fidelity_witness:
  "in_range scenario_env 385 \<and> header_ok good_globals
   \<and> length (edid_input_buffer good_globals) = unat (sizeof_edid_input_buffer scenario_env)
   \<and> unat (sizeof_edid_input_buffer scenario_env) \<le> length (edid good_globals)
   \<and> length (engine_inputs (parse_edid_buffer scenario_env good_globals 385)) = 1
   \<and> edid (load_edid scenario_env (reset_decoder scenario_env good_globals) 385) ! 7
       = edid_input_buffer good_globals ! 7
   \<and> edid (load_edid scenario_env (reset_decoder scenario_env good_globals) 385) ! 384
       = edid_input_buffer good_globals ! 384
   \<and> edid (load_edid scenario_env (reset_decoder scenario_env good_globals) 385) ! 385
       = edid good_globals ! 385
   \<and> length (edid (load_edid scenario_env (reset_decoder scenario_env good_globals) 385))
       = length (edid good_globals)"
proof -
  note h = scenario_in_range(2) scenario_headers(1) scenario_lengths
  note t = copy_fidelity [OF h]
  note a = scenario_accepted [OF scenario_in_range(2)]
  have u: "unat (385 :: u32) = 385" by simp
  have l: "length (edid good_globals) = 1024" by (simp add: good_globals_def)
  note n = t [THEN conjunct1]
  from t [THEN conjunct2]
  have "(\<forall>i < 385. edid (load_edid scenario_env (reset_decoder scenario_env good_globals) 385) ! i
                 = edid_input_buffer good_globals ! i)
      \<and> (\<forall>i. 385 \<le> i \<longrightarrow> i < 1024 \<longrightarrow>
           edid (load_edid scenario_env (reset_decoder scenario_env good_globals) 385) ! i
             = edid good_globals ! i)
      \<and> length (edid (load_edid scenario_env (reset_decoder scenario_env good_globals) 385))
           = 1024
      \<and> edid_input_buffer (load_edid scenario_env (reset_decoder scenario_env good_globals) 385)
           = edid_input_buffer good_globals"
    unfolding a u l by (simp only: list.set ball_simps simp_thms) blast
  then have "edid (load_edid scenario_env (reset_decoder scenario_env good_globals) 385) ! 7
               = edid_input_buffer good_globals ! 7"
    and "edid (load_edid scenario_env (reset_decoder scenario_env good_globals) 385) ! 384
               = edid_input_buffer good_globals ! 384"
    and "edid (load_edid scenario_env (reset_decoder scenario_env good_globals) 385) ! 385
               = edid good_globals ! 385"
    and "length (edid (load_edid scenario_env (reset_decoder scenario_env good_globals) 385))
           = length (edid good_globals)"
    unfolding l by simp_all
  with h n show ?thesis by (simp only: simp_thms)
qed

subsection \<open>C5: recorded size and block count\<close>

text \<open>
  Claim C5. On a call that passes all checks the state handed to the engine records the
  declared length as its size and the declared length divided by the page size, rounded
  down, as its block count; a partial last page is not counted and the call is still
  accepted. For a declared length of three pages plus one byte (and a page of more than one
  byte) the recorded block count is 3.
\<close>

theorem size_and_block_count:
  assumes "in_range e len" and "header_ok g"
  shows "length (engine_inputs (parse_edid_buffer e g len)) = 1
         \<and> (\<forall>gi \<in> set (engine_inputs (parse_edid_buffer e g len)).
              edid_size (state gi) = len
              \<and> num_blocks (state gi) = len div EDID_PAGE_SIZE e
              \<and> unat (num_blocks (state gi)) = unat len div unat (EDID_PAGE_SIZE e)
              \<and> (1 < EDID_PAGE_SIZE e \<longrightarrow> unat len = unat (EDID_PAGE_SIZE e) * 3 + 1 \<longrightarrow>
                   num_blocks (state gi) = 3))"
proof -
  let ?p = "unat (EDID_PAGE_SIZE e)"
  have d: "unat (len div EDID_PAGE_SIZE e) = unat len div ?p" by (rule unat_div)
  have three: "len div EDID_PAGE_SIZE e = 3"
    if "1 < EDID_PAGE_SIZE e" and "unat len = ?p * 3 + 1"
  proof -
    from that(1) have "1 < ?p" by (simp add: word_less_nat_alt)
    then have "(1 + ?p * 3) div ?p = 1 div ?p + 3" and "1 div ?p = 0"
      by (simp_all only: div_mult_self2 div_less)
    then have "(?p * 3 + 1) div ?p = 3" by (simp add: add.commute)
    with d that(2) have "unat (len div EDID_PAGE_SIZE e) = unat (3 :: u32)" by simp
    then show ?thesis by (simp only: word_unat_eq_iff)
  qed
  show ?thesis
    using d three
    by (simp add: parse_accepted [OF assms] load_edid_fields reset_decoder_fields)
qed

theorem size_and_block_count_witness:
  "in_range scenario_env 385 \<and> header_ok good_globals
   \<and> 1 < EDID_PAGE_SIZE scenario_env
   \<and> unat (385 :: u32) = unat (EDID_PAGE_SIZE scenario_env) * 3 + 1
   \<and> engine_inputs (parse_edid_buffer scenario_env good_globals 385)
       = [load_edid scenario_env (reset_decoder scenario_env good_globals) 385]
   \<and> edid_size (state (load_edid scenario_env (reset_decoder scenario_env good_globals) 385)) = 385
   \<and> num_blocks (state (load_edid scenario_env (reset_decoder scenario_env good_globals) 385)) = 3"
proof -
  note h = scenario_in_range(2) scenario_headers(1)
  note a = scenario_accepted [OF scenario_in_range(2)]
  have p: "1 < EDID_PAGE_SIZE scenario_env" by (simp add: scenario_env_def)
  have q: "unat (385 :: u32) = unat (EDID_PAGE_SIZE scenario_env) * 3 + 1"
    by (simp add: scenario_env_def)
  note t = size_and_block_count [OF h, unfolded a]
  from t p q
  have "edid_size (state (load_edid scenario_env (reset_decoder scenario_env good_globals) 385)) = 385
        \<and> num_blocks (state (load_edid scenario_env (reset_decoder scenario_env good_globals) 385)) = 3"
    by auto
  with h p q a show ?thesis by (simp only: simp_thms)
qed

subsection \<open>C6: the hand-over to the engine\<close>

text \<open>
  Claim C6. On a call that passes all checks the function calls the engine exactly once, on
  the globals obtained from the reset ones by the copy and the two size assignments, and
  returns the engine's result as it is; the globals the engine leaves are the globals after
  the call.
\<close>

theorem engine_passthrough:
  assumes "in_range e len" and "header_ok g"
  shows "engine_inputs (parse_edid_buffer e g len) = [load_edid e (reset_decoder e g) len]
         \<and> ret (parse_edid_buffer e g len)
             = fst (parse_edid e (load_edid e (reset_decoder e g) len))
         \<and> final (parse_edid_buffer e g len)
             = snd (parse_edid e (load_edid e (reset_decoder e g) len))"
  by (simp add: parse_accepted [OF assms])

theorem engine_passthrough_witness:
  "in_range scenario_env 385 \<and> header_ok good_globals
   \<and> engine_inputs (parse_edid_buffer scenario_env good_globals 385)
       = [load_edid scenario_env (reset_decoder scenario_env good_globals) 385]
   \<and> ret (parse_edid_buffer scenario_env good_globals 385) = 3
   \<and> rest (state (final (parse_edid_buffer scenario_env good_globals 385))) = 1"
proof -
  note h = scenario_in_range(2) scenario_headers(1)
  note t = engine_passthrough [OF h]
  have "fst (parse_edid scenario_env
               (load_edid scenario_env (reset_decoder scenario_env good_globals) 385)) = 3"
    and "rest (state (snd (parse_edid scenario_env
               (load_edid scenario_env (reset_decoder scenario_env good_globals) 385)))) = 1"
    by (simp_all add: scenario_env_def load_edid_fields reset_decoder_fields)
  with h t show ?thesis by simp
qed

subsection \<open>C7: what a call writes\<close>

text \<open>
  Claim C7. A call that fails a check (size or header) leaves the working array as it was
  and does not reach the engine, yet its decoder state, logs and options are the reset
  ones. Only a call that passes every check writes the working array: the engine is then
  handed the copy together with the reset state, logs and options.
\<close>

theorem working_copy_frame:
  "((\<not> in_range e len \<or> \<not> header_ok g) \<longrightarrow>
      engine_inputs (parse_edid_buffer e g len) = []
      \<and> edid (final (parse_edid_buffer e g len)) = edid g
      \<and> state (final (parse_edid_buffer e g len)) = new_edid_state e
      \<and> s_msgs (final (parse_edid_buffer e g len))
          = clear_msgs 0 (unat (EDID_MAX_BLOCKS e + 1)) (s_msgs g)
      \<and> options (final (parse_edid_buffer e g len))
          = (options g)(OptCheck := 1, OptPreferredTimings := 1, OptNativeResolution := 1,
                        OptSkipSHA := 0, OptUTF8 := 1))
   \<and> ((in_range e len \<and> header_ok g) \<longrightarrow>
      length (engine_inputs (parse_edid_buffer e g len)) = 1
      \<and> (\<forall>gi \<in> set (engine_inputs (parse_edid_buffer e g len)).
           edid gi = memcpy (edid g) (edid_input_buffer g) (unat len)
           \<and> state gi = (new_edid_state e)\<lparr>edid_size := len,
                                           num_blocks := len div EDID_PAGE_SIZE e\<rparr>
           \<and> s_msgs gi = clear_msgs 0 (unat (EDID_MAX_BLOCKS e + 1)) (s_msgs g)
           \<and> options gi
               = (options g)(OptCheck := 1, OptPreferredTimings := 1,
                             OptNativeResolution := 1, OptSkipSHA := 0, OptUTF8 := 1)))"
proof (cases "in_range e len")
  case False
  then show ?thesis by (simp add: parse_size_rejected reset_decoder_fields)
next
  case inr: True
  show ?thesis
  proof (cases "header_ok g")
    case False
    with inr show ?thesis by (simp add: parse_header_rejected reset_decoder_fields)
  next
    case True
    with inr show ?thesis
      by (simp add: parse_accepted load_edid_fields reset_decoder_fields)
  qed
qed

theorem working_copy_frame_witness:
  "\<not> in_range scenario_env 2048
   \<and> edid (final (parse_edid_buffer scenario_env good_globals 2048)) = edid good_globals
   \<and> state (final (parse_edid_buffer scenario_env good_globals 2048)) = new_edid_state scenario_env
   \<and> \<not> header_ok bad_globals
   \<and> edid (final (parse_edid_buffer scenario_env bad_globals 128)) = edid bad_globals
   \<and> state (final (parse_edid_buffer scenario_env bad_globals 128)) = new_edid_state scenario_env
   \<and> in_range scenario_env 128 \<and> header_ok good_globals
   \<and> length (engine_inputs (parse_edid_buffer scenario_env good_globals 128)) = 1"
proof -
  note a = scenario_in_range(5)
  note b = scenario_headers(2)
  note c = scenario_in_range(1) scenario_headers(1)
  show ?thesis
    using a b c working_copy_frame [of scenario_env 2048 good_globals]
      working_copy_frame [of scenario_env 128 bad_globals]
      working_copy_frame [of scenario_env 128 good_globals]
    by blast
qed

subsection \<open>C8: what the engine can rely on\<close>

text \<open>
  Claim C8. Whenever the engine is invoked, the state it sees records the declared length as
  its size, that size lies between the page size and the capacity, the recorded block count
  is the size divided by the page size, and it lies between 1 and the maximum block count;
  in particular it is never 0. The page size is assumed positive.
\<close>

theorem engine_precondition:
  assumes "0 < EDID_PAGE_SIZE e"
  shows "\<forall>gi \<in> set (engine_inputs (parse_edid_buffer e g len)).
           edid_size (state gi) = len
           \<and> EDID_PAGE_SIZE e \<le> edid_size (state gi)
           \<and> edid_size (state gi) \<le> sizeof_edid_input_buffer e
           \<and> num_blocks (state gi) = edid_size (state gi) div EDID_PAGE_SIZE e
           \<and> 1 \<le> num_blocks (state gi)
           \<and> num_blocks (state gi) \<le> EDID_MAX_BLOCKS e
           \<and> num_blocks (state gi) \<noteq> 0"
proof (cases "in_range e len \<and> header_ok g")
  case False
  then have "engine_inputs (parse_edid_buffer e g len) = []"
    by (simp add: engine_inputs_empty_iff)
  then show ?thesis by simp
next
  case True
  then have inr: "in_range e len" and hdr: "header_ok g" by simp_all
  from blocks_bounds [OF assms inr]
  have lo: "1 \<le> len div EDID_PAGE_SIZE e" and hi: "len div EDID_PAGE_SIZE e \<le> EDID_MAX_BLOCKS e"
    by simp_all
  from lo have nz: "len div EDID_PAGE_SIZE e \<noteq> 0" by (auto simp: word_le_nat_alt)
  from inr have "EDID_PAGE_SIZE e \<le> len" and "len \<le> sizeof_edid_input_buffer e"
    by (simp_all add: in_range_def)
  with lo hi nz show ?thesis
    by (simp add: parse_accepted [OF inr hdr] load_edid_fields reset_decoder_fields)
qed

theorem engine_precondition_witness:
  "0 < EDID_PAGE_SIZE scenario_env
   \<and> engine_inputs (parse_edid_buffer scenario_env good_globals 1024)
       = [load_edid scenario_env (reset_decoder scenario_env good_globals) 1024]
   \<and> (edid_size (state (load_edid scenario_env (reset_decoder scenario_env good_globals) 1024))
         = 1024
      \<and> EDID_PAGE_SIZE scenario_env
          \<le> edid_size (state (load_edid scenario_env (reset_decoder scenario_env good_globals) 1024))
      \<and> edid_size (state (load_edid scenario_env (reset_decoder scenario_env good_globals) 1024))
          \<le> sizeof_edid_input_buffer scenario_env
      \<and> num_blocks (state (load_edid scenario_env (reset_decoder scenario_env good_globals) 1024))
          = edid_size (state (load_edid scenario_env (reset_decoder scenario_env good_globals) 1024))
              div EDID_PAGE_SIZE scenario_env
      \<and> 1 \<le> num_blocks (state (load_edid scenario_env (reset_decoder scenario_env good_globals) 1024))
      \<and> num_blocks (state (load_edid scenario_env (reset_decoder scenario_env good_globals) 1024))
          \<le> EDID_MAX_BLOCKS scenario_env
      \<and> num_blocks (state (load_edid scenario_env (reset_decoder scenario_env good_globals) 1024))
          \<noteq> 0)"
proof -
  have p: "0 < EDID_PAGE_SIZE scenario_env" by (simp add: scenario_env_def)
  note a = scenario_accepted [OF scenario_in_range(3)]
  note t = engine_precondition [OF p, of good_globals 1024, unfolded a]
  have t': "\<forall>gi \<in> {x}. P gi \<Longrightarrow> P x" for P and x :: "nat globals" by simp
  from t have "\<forall>gi \<in> {load_edid scenario_env (reset_decoder scenario_env good_globals) 1024}.
           edid_size (state gi) = 1024
           \<and> EDID_PAGE_SIZE scenario_env \<le> edid_size (state gi)
           \<and> edid_size (state gi) \<le> sizeof_edid_input_buffer scenario_env
           \<and> num_blocks (state gi) = edid_size (state gi) div EDID_PAGE_SIZE scenario_env
           \<and> 1 \<le> num_blocks (state gi)
           \<and> num_blocks (state gi) \<le> EDID_MAX_BLOCKS scenario_env
           \<and> num_blocks (state gi) \<noteq> 0"
    by (simp only: list.set)
  then show ?thesis
    by (intro conjI [OF p] conjI [OF a]) (rule t')
qed

subsection \<open>C9: what the decision depends on\<close>

text \<open>
  Claim C9. Whether a call is rejected or accepted depends only on the declared length and
  the first eight staging bytes (and the two constants): for two calls that agree on these,
  either both return \<open>-1\<close> before the copy, without invoking the engine, or both copy and
  invoke the engine, whatever the staging bytes from index 8 on and whatever the rest of
  the globals.
\<close>

theorem decision_depends_on_prefix:
  assumes "take 8 (edid_input_buffer g1) = take 8 (edid_input_buffer g2)"
    and "EDID_PAGE_SIZE e1 = EDID_PAGE_SIZE e2" and "EDID_MAX_BLOCKS e1 = EDID_MAX_BLOCKS e2"
  shows "(engine_inputs (parse_edid_buffer e1 g1 len) = []
          \<and> ret (parse_edid_buffer e1 g1 len) = - 1
          \<and> edid (final (parse_edid_buffer e1 g1 len)) = edid g1
          \<and> engine_inputs (parse_edid_buffer e2 g2 len) = []
          \<and> ret (parse_edid_buffer e2 g2 len) = - 1
          \<and> edid (final (parse_edid_buffer e2 g2 len)) = edid g2)
         \<or> (engine_inputs (parse_edid_buffer e1 g1 len) = [load_edid e1 (reset_decoder e1 g1) len]
            \<and> engine_inputs (parse_edid_buffer e2 g2 len)
                = [load_edid e2 (reset_decoder e2 g2) len])"
proof -
  from assms(1) have hdr: "header_ok g1 = header_ok g2" by (simp add: header_ok_def)
  from assms(2,3) have inr: "in_range e1 len = in_range e2 len" by (rule in_range_cong)
  show ?thesis
  proof (cases "in_range e1 len")
    case False
    with inr show ?thesis by (simp add: parse_size_rejected reset_decoder_fields)
  next
    case r1: True
    with inr have r2: "in_range e2 len" by simp
    show ?thesis
    proof (cases "header_ok g1")
      case False
      with hdr r1 r2 show ?thesis by (simp add: parse_header_rejected reset_decoder_fields)
    next
      case True
      with hdr r1 r2 show ?thesis by (simp add: parse_accepted)
    qed
  qed
qed

theorem decision_depends_on_prefix_witness:
  "take 8 (edid_input_buffer good_globals) = take 8 (edid_input_buffer other_globals)
   \<and> edid_input_buffer good_globals \<noteq> edid_input_buffer other_globals
   \<and> engine_inputs (parse_edid_buffer scenario_env good_globals 128) \<noteq> []
   \<and> engine_inputs (parse_edid_buffer scenario_env other_globals 128)
       = [load_edid scenario_env (reset_decoder scenario_env other_globals) 128]"
proof -
  have p: "take 8 (edid_input_buffer good_globals) = take 8 (edid_input_buffer other_globals)"
    by (simp add: good_globals_def other_globals_def edid_header_def)
  have d: "edid_input_buffer good_globals \<noteq> edid_input_buffer other_globals"
    by (simp add: good_globals_def other_globals_def)
  have a: "engine_inputs (parse_edid_buffer scenario_env good_globals 128) \<noteq> []"
    by (simp add: scenario_accepted scenario_in_range)
  from decision_depends_on_prefix [OF p refl refl, of scenario_env 128] a
  have "engine_inputs (parse_edid_buffer scenario_env other_globals 128)
          = [load_edid scenario_env (reset_decoder scenario_env other_globals) 128]"
    by (elim disjE conjE) (simp_all only: simp_thms)
  with p d a show ?thesis by (simp only: simp_thms)
qed

subsection \<open>C10: one status for both failures\<close>

text \<open>
  Claim C10. A call rejected for its size and a call rejected for its header return the
  same value, \<open>-1\<close>, and neither invokes the engine; each leaves the reset globals with one
  diagnostic appended to the error stream, and the two diagnostics are different texts.
\<close>

theorem failures_share_status:
  assumes "\<not> in_range e len1" and "in_range e len2" and "\<not> header_ok g2"
  shows "ret (parse_edid_buffer e g1 len1) = - 1
         \<and> ret (parse_edid_buffer e g2 len2) = - 1
         \<and> ret (parse_edid_buffer e g1 len1) = ret (parse_edid_buffer e g2 len2)
         \<and> engine_inputs (parse_edid_buffer e g1 len1) = []
         \<and> engine_inputs (parse_edid_buffer e g2 len2) = []
         \<and> final (parse_edid_buffer e g1 len1)
             = (reset_decoder e g1)\<lparr>stderr := stderr g1 @ invalid_size_msg len1\<rparr>
         \<and> final (parse_edid_buffer e g2 len2)
             = (reset_decoder e g2)\<lparr>stderr := stderr g2 @ no_header_msg\<rparr>
         \<and> invalid_size_msg len1 \<noteq> no_header_msg"
  using assms
  by (simp add: parse_size_rejected parse_header_rejected msgs_differ)

theorem failures_share_status_witness:
  "\<not> in_range scenario_env 64 \<and> in_range scenario_env 128 \<and> \<not> header_ok bad_globals
   \<and> ret (parse_edid_buffer scenario_env good_globals 64) = - 1
   \<and> ret (parse_edid_buffer scenario_env bad_globals 128) = - 1
   \<and> stderr (final (parse_edid_buffer scenario_env good_globals 64))
       = ''Invalid EDID size: 64 bytes'' @ [CHR 0x0A]
   \<and> stderr (final (parse_edid_buffer scenario_env bad_globals 128))
       = ''No EDID header found.'' @ [CHR 0x0A]"
proof -
  note h = scenario_in_range(4) scenario_in_range(1) scenario_headers(2)
  note t = failures_share_status [OF h, of good_globals]
  have s: "stderr good_globals = []" "stderr bad_globals = []"
    by (simp_all add: good_globals_def bad_globals_def)
  from t have "stderr (final (parse_edid_buffer scenario_env good_globals 64))
                 = ''Invalid EDID size: 64 bytes'' @ [CHR 0x0A]"
    and "stderr (final (parse_edid_buffer scenario_env bad_globals 128))
                 = ''No EDID header found.'' @ [CHR 0x0A]"
    by (simp_all add: s invalid_size_msg_64 no_header_msg_def)
  with h t show ?thesis by (simp only: simp_thms)
qed

end
